theory Spec2Isabelle
  imports Main
begin

section \<open>Python values used by the module\<close>

text \<open>
  The module \<^verbatim>\<open>cumulus_geoproc/utils/__init__.py\<close> has two functions,
  \<^verbatim>\<open>file_extension\<close> and \<^verbatim>\<open>decompress\<close>. Exceptions are values: a
  function that can raise returns \<open>pyexc + 'a\<close>, with \<open>Inl\<close> the exception.
  Every constructor of \<open>pyexc\<close> stands for a subclass of Python's \<^verbatim>\<open>Exception\<close>,
  so the handler \<^verbatim>\<open>except Exception\<close> catches all of them; only \<open>OSError\<close>
  stands for (a subclass of) \<^verbatim>\<open>OSError\<close>.
\<close>

datatype pyexc =
    OSError
  | EOFError
  | ZlibError
  | IndexError
  | ReadError
  | BadZipFile
  | PathTraversal

fun is_OSError :: "pyexc \<Rightarrow> bool" where
  "is_OSError OSError = True"
| "is_OSError _ = False"

subsection \<open>Strings\<close>

text \<open>\<^verbatim>\<open>s.endswith(e)\<close> for a string \<open>e\<close>, and for a tuple of strings.\<close>

definition endswith :: "string \<Rightarrow> string \<Rightarrow> bool" where
  "endswith s e = (length e \<le> length s \<and> drop (length s - length e) s = e)"

definition endswith_any :: "string \<Rightarrow> string list \<Rightarrow> bool" where
  "endswith_any s es = list_ex (endswith s) es"

text \<open>
  The slice \<^verbatim>\<open>s[-n:]\<close> for \<open>n = len(e)\<close>: the last \<open>n\<close> characters, the whole
  string when it is shorter, and the whole string for \<open>n = 0\<close> (\<^verbatim>\<open>s[-0:]\<close> is
  \<^verbatim>\<open>s[0:]\<close>).
\<close>

definition py_tail :: "nat \<Rightarrow> string \<Rightarrow> string" where
  "py_tail n s = (if n = 0 then s else drop (length s - n) s)"

text \<open>
  \<^verbatim>\<open>s.replace(old, new)\<close>: every occurrence of \<open>old\<close>, found from the left
  without overlap, becomes \<open>new\<close>. For an empty \<open>old\<close> Python puts \<open>new\<close> before
  every character and at the end.
\<close>

function str_replace_ne :: "string \<Rightarrow> string \<Rightarrow> string \<Rightarrow> string" where
  "str_replace_ne old new [] = []"
| "str_replace_ne old new (c # cs) =
     (if old = [] then c # cs
      else if take (length old) (c # cs) = old
        then new @ str_replace_ne old new (drop (length old) (c # cs))
        else c # str_replace_ne old new cs)"
  by pat_completeness auto
termination
  by (relation "measure (\<lambda>(old, new, s). length s)") auto

definition str_replace :: "string \<Rightarrow> string \<Rightarrow> string \<Rightarrow> string" where
  "str_replace s old new =
     (if old = [] then new @ concat (map (\<lambda>c. c # new) s)
      else str_replace_ne old new s)"

text \<open>
  \<^verbatim>\<open>xs[i]\<close> on a list: a negative index counts from the end, and an index
  outside the list raises \<^verbatim>\<open>IndexError\<close>.
\<close>

definition py_index :: "'a list \<Rightarrow> int \<Rightarrow> pyexc + 'a" where
  "py_index xs i =
     (if i < - int (length xs) then Inl IndexError
      else if i < 0 then Inr (xs ! nat (int (length xs) + i))
      else if i < int (length xs) then Inr (xs ! nat i)
      else Inl IndexError)"

section \<open>The extension rewriter\<close>

definition EXTS :: "string list" where
  "EXTS = [''.bil'', ''.bin'', ''.dat'', ''.gz'', ''.grb'', ''.grb.gz'', ''.grb2'',
           ''.grib'', ''.grib.gz'', ''.grib2'', ''.grib2.gz'', ''.nc'', ''.tar'',
           ''.tar.gz'', ''.tif'', ''.tiff'', ''.txt'', ''.zip'']"

text \<open>
  The argument \<^verbatim>\<open>extension\<close>: \<^verbatim>\<open>None\<close>, a string (its annotated type) or a
  tuple of strings, the two kinds of value \<^verbatim>\<open>str.endswith\<close> accepts.
  \<open>active_exts\<close> is the line \<^verbatim>\<open>_exts = extension if extension else EXTS\<close>:
  \<^verbatim>\<open>None\<close>, the empty string and the empty tuple are falsy; a string \<open>s\<close>
  is the one candidate \<open>s\<close>.
\<close>

datatype ext_arg = ExtNone | ExtStr string | ExtTuple "string list"

fun active_exts :: "ext_arg \<Rightarrow> string list" where
  "active_exts ExtNone = EXTS"
| "active_exts (ExtStr s) = (if s = [] then EXTS else [s])"
| "active_exts (ExtTuple t) = (if t = [] then EXTS else t)"

text \<open>
  The candidate list \<^verbatim>\<open>file_\<close> of the source: the comprehension runs over
  \<^verbatim>\<open>EXTS\<close>, also when an override is active.
\<close>

definition candidates :: "string \<Rightarrow> string \<Rightarrow> string list" where
  "candidates file sfx =
     [str_replace file (py_tail (length e) file) sfx. e \<leftarrow> EXTS, py_tail (length e) file = e]"

text \<open>The two lines that turn \<^verbatim>\<open>maxsplit\<close> into the index used.\<close>

definition select_index :: "nat \<Rightarrow> int \<Rightarrow> int" where
  "select_index len maxsplit =
     (let maxsplit = (if maxsplit > 0 then maxsplit - 1 else maxsplit)
      in min (int len - 1) maxsplit)"

definition file_extension ::
  "string \<Rightarrow> string option \<Rightarrow> string \<Rightarrow> ext_arg \<Rightarrow> int \<Rightarrow> pyexc + string" where
  "file_extension file preffix sfx extension maxsplit =
     (let file = (case preffix of Some p \<Rightarrow> p @ file | None \<Rightarrow> file);
          exts = active_exts extension
      in if endswith_any file exts
         then (let files = candidates file sfx
               in py_index files (select_index (length files) maxsplit))
         else Inr (file @ sfx))"

section \<open>Paths\<close>

text \<open>
  The functions of \<^verbatim>\<open>os.path\<close> (POSIX) that the module calls, on strings.
  \<open>basename\<close> is what follows the last slash; \<open>path_join\<close> is
  \<^verbatim>\<open>os.path.join(a, b)\<close>: an absolute \<open>b\<close> replaces \<open>a\<close>, otherwise \<open>b\<close> is
  appended after one separator.
\<close>

definition basename :: "string \<Rightarrow> string" where
  "basename p = rev (takeWhile (\<lambda>c. c \<noteq> CHR ''/'') (rev p))"

definition path_join :: "string \<Rightarrow> string \<Rightarrow> string" where
  "path_join a b =
     (if take 1 b = ''/'' then b
      else if a = [] then b
      else if last a = CHR ''/'' then a @ b
      else a @ ''/'' @ b)"

text \<open>\<^verbatim>\<open>path.split('/')\<close> and \<^verbatim>\<open>'/'.join(comps)\<close>.\<close>

fun split_sep :: "string \<Rightarrow> string list" where
  "split_sep [] = [[]]"
| "split_sep (c # cs) =
     (if c = CHR ''/'' then [] # split_sep cs
      else (case split_sep cs of [] \<Rightarrow> [[c]] | w # ws \<Rightarrow> (c # w) # ws))"

fun sep_join :: "string list \<Rightarrow> string" where
  "sep_join [] = []"
| "sep_join [x] = x"
| "sep_join (x # y # ys) = x @ ''/'' @ sep_join (y # ys)"

text \<open>
  \<^verbatim>\<open>os.path.normpath\<close>: one or two leading slashes are kept (three or more
  become one), empty and \<open>.\<close> components are dropped, and \<open>..\<close> removes the
  component before it; at the root \<open>..\<close> is dropped, and in a relative path a
  leading \<open>..\<close> stays. \<open>norm_comps\<close> is the loop over the components, with
  \<open>new_comps\<close> the list built so far.
\<close>

definition initial_slashes :: "string \<Rightarrow> nat" where
  "initial_slashes path =
     (if take 1 path = ''/''
      then (if take 2 path = ''//'' then (if take 3 path = ''///'' then 1 else 2) else 1)
      else 0)"

fun norm_comps :: "nat \<Rightarrow> string list \<Rightarrow> string list \<Rightarrow> string list" where
  "norm_comps ini new_comps [] = new_comps"
| "norm_comps ini new_comps (part # parts) =
     (if part = [] then norm_comps ini new_comps parts
      else if part = ''.'' then norm_comps ini new_comps parts
      else if part = ''..'' then
        (if new_comps = [] then
           (if ini = 0 then norm_comps ini (new_comps @ [part]) parts
            else norm_comps ini new_comps parts)
         else if last new_comps = ''..'' then norm_comps ini (new_comps @ [part]) parts
         else norm_comps ini (butlast new_comps) parts)
      else norm_comps ini (new_comps @ [part]) parts)"

definition normpath :: "string \<Rightarrow> string" where
  "normpath path =
     (if path = [] then ''.''
      else (let ini = initial_slashes path;
                comps = norm_comps ini [] (split_sep path);
                path = replicate ini (CHR ''/'') @ sep_join comps
            in if path = [] then ''.'' else path))"

text \<open>
  \<^verbatim>\<open>os.path.abspath\<close>, with the working directory \<open>cwd\<close> (the value of
  \<^verbatim>\<open>os.getcwd()\<close>) as an argument.
\<close>

definition abspath :: "string \<Rightarrow> string \<Rightarrow> string" where
  "abspath cwd path =
     (if take 1 path = ''/'' then normpath path else normpath (path_join cwd path))"

text \<open>
  \<^verbatim>\<open>os.path.commonprefix([a, b])\<close>: the longest common prefix of the two
  strings, character by character.
\<close>

fun commonprefix :: "string \<Rightarrow> string \<Rightarrow> string" where
  "commonprefix (x # xs) (y # ys) = (if x = y then x # commonprefix xs ys else [])"
| "commonprefix _ _ = []"

section \<open>The archive decompressor\<close>

subsection \<open>The libraries and the file system\<close>

text \<open>
  \<^verbatim>\<open>decompress\<close> reaches the file system through \<^verbatim>\<open>gzip\<close>, \<^verbatim>\<open>zipfile\<close>,
  \<^verbatim>\<open>tarfile\<close> and \<^verbatim>\<open>open\<close>. These are arguments of the model: a record of
  operations on a file-system state \<open>'fs\<close>, with \<open>'d\<close> the bytes of a file.
  An operation that only reads returns an exception or a value; one that writes
  returns the exception, if any, and the state it leaves.
  \<^item> \<open>gzip_read fs src\<close>: \<^verbatim>\<open>gzip.open(src, "rb")\<close> and \<^verbatim>\<open>fh.read()\<close>;
  \<^item> \<open>write_file fs src content\<close>: \<^verbatim>\<open>open(src, "wb")\<close> and \<^verbatim>\<open>fp.write(content)\<close>;
  \<^item> \<open>is_zipfile fs src\<close>, \<open>is_tarfile fs src\<close>: the two probes;
  \<^item> \<open>zip_extractall fs src path\<close>: \<^verbatim>\<open>zipfile.ZipFile(src)\<close> and
    \<^verbatim>\<open>zip.extractall(path)\<close>;
  \<^item> \<open>tar_getmembers fs src\<close>: \<^verbatim>\<open>tarfile.open(src)\<close> and \<^verbatim>\<open>tar.getmembers()\<close>
    (the archive keeps the list once read, so the second call of the source
    returns the same list);
  \<^item> \<open>tar_extractall fs src path\<close>: \<^verbatim>\<open>tar.extractall(path, None, numeric_owner=False)\<close>
    on the archive opened from \<open>src\<close>.
  The calls of the logger change neither the file system nor the control flow and
  are left out.
\<close>

record tarinfo =
  name :: string
  isfile :: bool

record ('fs, 'd) oslib =
  getcwd :: string
  gzip_read :: "'fs \<Rightarrow> string \<Rightarrow> pyexc + 'd"
  write_file :: "'fs \<Rightarrow> string \<Rightarrow> 'd \<Rightarrow> pyexc option \<times> 'fs"
  is_zipfile :: "'fs \<Rightarrow> string \<Rightarrow> bool"
  zip_extractall :: "'fs \<Rightarrow> string \<Rightarrow> string \<Rightarrow> pyexc option \<times> 'fs"
  is_tarfile :: "'fs \<Rightarrow> string \<Rightarrow> pyexc + bool"
  tar_getmembers :: "'fs \<Rightarrow> string \<Rightarrow> pyexc + tarinfo list"
  tar_extractall :: "'fs \<Rightarrow> string \<Rightarrow> string \<Rightarrow> pyexc option \<times> 'fs"

text \<open>What \<^verbatim>\<open>decompress\<close> returns: \<^verbatim>\<open>False\<close> or a path.\<close>

datatype result = Failure | Path string

subsection \<open>The path-traversal guard\<close>

definition is_within_directory :: "string \<Rightarrow> string \<Rightarrow> string \<Rightarrow> bool" where
  "is_within_directory cwd directory target =
     (let abs_directory = abspath cwd directory;
          abs_target = abspath cwd target;
          pfx = commonprefix abs_directory abs_target
      in pfx = abs_directory)"

text \<open>The loop of \<^verbatim>\<open>safe_extract\<close> over the members, raising at the first that fails.\<close>

fun check_members :: "string \<Rightarrow> string \<Rightarrow> tarinfo list \<Rightarrow> pyexc + unit" where
  "check_members cwd path [] = Inr ()"
| "check_members cwd path (member # members) =
     (let member_path = path_join path (name member)
      in if is_within_directory cwd path member_path
         then check_members cwd path members
         else Inl PathTraversal)"

definition safe_extract ::
  "('fs, 'd) oslib \<Rightarrow> 'fs \<Rightarrow> string \<Rightarrow> tarinfo list \<Rightarrow> string \<Rightarrow> pyexc option \<times> 'fs" where
  "safe_extract lib fs src members path =
     (case check_members (getcwd lib) path members of
        Inl ex \<Rightarrow> (Some ex, fs)
      | Inr _ \<Rightarrow> tar_extractall lib fs src path)"

subsection \<open>decompress\<close>

text \<open>
  The first \<^verbatim>\<open>try\<close> block: read \<open>src\<close> as gzip and write the content to
  \<open>dst/fname\<close>. Its handler catches \<^verbatim>\<open>OSError\<close> only; any other exception
  leaves the function (\<open>Inl\<close>). Otherwise the result is the working \<open>src\<close>: the
  new path once \<^verbatim>\<open>src = os.path.join(dst, fname)\<close> has run (also when the
  write then fails with an \<^verbatim>\<open>OSError\<close>), the old one before.
\<close>

definition gunzip_stage ::
  "('fs, 'd) oslib \<Rightarrow> 'fs \<Rightarrow> string \<Rightarrow> string \<Rightarrow> string \<Rightarrow> (pyexc + string) \<times> 'fs" where
  "gunzip_stage lib fs src dst filename =
     (case gzip_read lib fs src of
        Inl ex \<Rightarrow> (if is_OSError ex then (Inr src, fs) else (Inl ex, fs))
      | Inr content \<Rightarrow>
          (case file_extension filename None [] ExtNone 1 of
             Inl ex \<Rightarrow> (if is_OSError ex then (Inr src, fs) else (Inl ex, fs))
           | Inr fname \<Rightarrow>
               (let src = path_join dst fname
                in case write_file lib fs src content of
                     (Some ex, fs') \<Rightarrow>
                       (if is_OSError ex then (Inr src, fs') else (Inl ex, fs'))
                   | (None, fs') \<Rightarrow> (Inr src, fs'))))"

text \<open>
  The loop \<^verbatim>\<open>for member in tar.getmembers(): if member.isfile(): decompress(...)\<close>.
  \<open>self fs src\<close> is the recursive call on \<open>src\<close> with \<open>dst\<close> and
  \<open>recursive\<close> fixed; its value is dropped, its exception is passed on, and
  \<open>None\<close> says that the nesting went deeper than the model was allowed to follow.
\<close>

fun recurse_members ::
  "('fs \<Rightarrow> string \<Rightarrow> ((pyexc + result) \<times> 'fs) option) \<Rightarrow> string \<Rightarrow> tarinfo list \<Rightarrow> 'fs
     \<Rightarrow> (pyexc option \<times> 'fs) option" where
  "recurse_members self path [] fs = Some (None, fs)"
| "recurse_members self path (member # members) fs =
     (if isfile member then
        (case self fs (path_join path (name member)) of
           None \<Rightarrow> None
         | Some (Inl ex, fs') \<Rightarrow> Some (Some ex, fs')
         | Some (Inr _, fs') \<Rightarrow> recurse_members self path members fs')
      else recurse_members self path members fs)"

text \<open>
  The second \<^verbatim>\<open>try\<close> block, on the working \<open>src\<close>: zip, else tar, else the
  path itself. Its handler catches every exception and returns \<^verbatim>\<open>False\<close>.
  In the tar branch the archive is opened before \<^verbatim>\<open>file_extension\<close> runs and
  its members are listed after; neither changes the file system and a failure of
  either ends in the same handler, so the model reads the members first.
\<close>

definition extract_stage ::
  "('fs \<Rightarrow> string \<Rightarrow> string \<Rightarrow> bool \<Rightarrow> ((pyexc + result) \<times> 'fs) option)
     \<Rightarrow> ('fs, 'd) oslib \<Rightarrow> 'fs \<Rightarrow> string \<Rightarrow> string \<Rightarrow> string \<Rightarrow> bool
     \<Rightarrow> ((pyexc + result) \<times> 'fs) option" where
  "extract_stage self lib fs src dst filename recursive =
     (if is_zipfile lib fs src then
        (case file_extension filename None [] ExtNone (- 1) of
           Inl ex \<Rightarrow> Some (Inr Failure, fs)
         | Inr fname \<Rightarrow>
             (let dst' = path_join dst fname
              in case zip_extractall lib fs src dst' of
                   (Some ex, fs') \<Rightarrow> Some (Inr Failure, fs')
                 | (None, fs') \<Rightarrow> Some (Inr (Path dst'), fs')))
      else
        (case is_tarfile lib fs src of
           Inl ex \<Rightarrow> Some (Inr Failure, fs)
         | Inr False \<Rightarrow> Some (Inr (Path src), fs)
         | Inr True \<Rightarrow>
             (case tar_getmembers lib fs src of
                Inl ex \<Rightarrow> Some (Inr Failure, fs)
              | Inr members \<Rightarrow>
                  (case file_extension filename None [] ExtNone (- 1) of
                     Inl ex \<Rightarrow> Some (Inr Failure, fs)
                   | Inr fname \<Rightarrow>
                       (let dst' = path_join dst fname
                        in case safe_extract lib fs src members dst' of
                             (Some ex, fs') \<Rightarrow> Some (Inr Failure, fs')
                           | (None, fs') \<Rightarrow>
                               (if recursive then
                                  (case recurse_members (\<lambda>s p. self s p dst' recursive)
                                          dst' members fs' of
                                     None \<Rightarrow> None
                                   | Some (Some ex, fs'') \<Rightarrow> Some (Inr Failure, fs'')
                                   | Some (None, fs'') \<Rightarrow> Some (Inr (Path dst'), fs''))
                                else Some (Inr (Path dst'), fs')))))))"

definition decompress_body ::
  "('fs \<Rightarrow> string \<Rightarrow> string \<Rightarrow> bool \<Rightarrow> ((pyexc + result) \<times> 'fs) option)
     \<Rightarrow> ('fs, 'd) oslib \<Rightarrow> 'fs \<Rightarrow> string \<Rightarrow> string \<Rightarrow> bool
     \<Rightarrow> ((pyexc + result) \<times> 'fs) option" where
  "decompress_body self lib fs src dst recursive =
     (let exts = [''.gz'', ''.tar'', ''.zip'', ''.tar.gz''];
          filename = basename src
      in if endswith_any src exts then
           (case gunzip_stage lib fs src dst filename of
              (Inl ex, fs') \<Rightarrow> Some (Inl ex, fs')
            | (Inr src', fs') \<Rightarrow> extract_stage self lib fs' src' dst filename recursive)
         else Some (Inr Failure, fs))"

text \<open>
  \<open>decompress n\<close> follows archives nested up to \<open>n\<close> levels below the one it is
  called on; the outermost call is always made. The value is \<open>None\<close> only when
  a member lies deeper than that. Otherwise it is the outcome (an exception
  that reaches the caller, or the value returned) and the file system left.
\<close>

primrec decompress ::
  "nat \<Rightarrow> ('fs, 'd) oslib \<Rightarrow> 'fs \<Rightarrow> string \<Rightarrow> string \<Rightarrow> bool
     \<Rightarrow> ((pyexc + result) \<times> 'fs) option" where
  "decompress 0 lib fs src dst recursive =
     decompress_body (\<lambda>s p d r. None) lib fs src dst recursive"
| "decompress (Suc n) lib fs src dst recursive =
     decompress_body (decompress n lib) lib fs src dst recursive"

subsection \<open>An in-memory file system\<close>

text \<open>
  A concrete instance of the libraries, used to run \<open>decompress\<close> on examples.
  A file is described by its format rather than its bytes: plain data, a gzip
  stream of a file, a gzip stream cut off before its end, a zip archive, or a tar
  archive whose members are regular files (\<open>Some\<close>) or directories (\<open>None\<close>).
  The file system maps absolute normalised paths to regular files; \<open>Raw []\<close> is
  the empty file.
  \<^item> Reading a path that has no file raises \<^verbatim>\<open>OSError\<close> (\<^verbatim>\<open>FileNotFoundError\<close>).
  \<^item> \<^verbatim>\<open>gzip\<close> reads the empty file as empty content without raising; it
    raises \<^verbatim>\<open>BadGzipFile\<close>, an \<^verbatim>\<open>OSError\<close>, on any other file without the
    gzip header, and \<^verbatim>\<open>EOFError\<close>, which is not an \<^verbatim>\<open>OSError\<close>, on a stream
    that ends before its end-of-stream marker.
  \<^item> \<^verbatim>\<open>zipfile\<close> finds a zip archive by the end record near the end of the
    file, so a tar archive that holds a zip member is taken for that zip archive
    (the last one, what follows it being short). It drops empty, \<open>.\<close> and
    \<open>..\<close> components of a member name before it writes the member.
  \<^item> \<^verbatim>\<open>tarfile\<close> writes a member to \<^verbatim>\<open>os.path.join(path, member.name)\<close>,
    with no filter on the name (the behaviour of \<^verbatim>\<open>extractall\<close> without an
    extraction filter).
  \<^item> A write below a path that is a regular file raises \<^verbatim>\<open>OSError\<close>
    (\<^verbatim>\<open>NotADirectoryError\<close>); an extraction stops there and keeps what it
    wrote before.
  Directories themselves are not recorded: one that a write needs, and that no
  regular file stands in for, is taken to exist or to be created.
\<close>

datatype blob =
    Raw string
  | Gzip blob
  | GzipTruncated
  | Zip "(string \<times> blob) list"
  | Tar "(string \<times> blob option) list"

type_synonym memfs = "string \<Rightarrow> blob option"

definition mem_gzip_read :: "string \<Rightarrow> memfs \<Rightarrow> string \<Rightarrow> pyexc + blob" where
  "mem_gzip_read cwd fs src =
     (case fs (abspath cwd src) of
        None \<Rightarrow> Inl OSError
      | Some (Gzip b) \<Rightarrow> Inr b
      | Some GzipTruncated \<Rightarrow> Inl EOFError
      | Some (Raw s) \<Rightarrow> (if s = [] then Inr (Raw []) else Inl OSError)
      | Some _ \<Rightarrow> Inl OSError)"

text \<open>The directories above an absolute normalised path, and whether one of them is a file.\<close>

definition ancestors :: "string \<Rightarrow> string list" where
  "ancestors p =
     (let parts = filter (\<lambda>x. x \<noteq> []) (split_sep p)
      in map (\<lambda>k. ''/'' @ sep_join (take k parts)) [1..<length parts])"

definition blocked :: "memfs \<Rightarrow> string \<Rightarrow> bool" where
  "blocked fs p = list_ex (\<lambda>a. fs a \<noteq> None) (ancestors p)"

definition mem_write_file :: "string \<Rightarrow> memfs \<Rightarrow> string \<Rightarrow> blob \<Rightarrow> pyexc option \<times> memfs" where
  "mem_write_file cwd fs src content =
     (let p = abspath cwd src
      in if blocked fs p then (Some OSError, fs) else (None, fs(p \<mapsto> content)))"

fun last_zip :: "(string \<times> blob option) list \<Rightarrow> (string \<times> blob) list option" where
  "last_zip [] = None"
| "last_zip ((n, b) # ms) =
     (case last_zip ms of
        Some es \<Rightarrow> Some es
      | None \<Rightarrow> (case b of Some (Zip es) \<Rightarrow> Some es | _ \<Rightarrow> None))"

definition zip_entries :: "blob \<Rightarrow> (string \<times> blob) list option" where
  "zip_entries b = (case b of Zip es \<Rightarrow> Some es | Tar ms \<Rightarrow> last_zip ms | _ \<Rightarrow> None)"

definition mem_is_zipfile :: "string \<Rightarrow> memfs \<Rightarrow> string \<Rightarrow> bool" where
  "mem_is_zipfile cwd fs src =
     (case fs (abspath cwd src) of
        None \<Rightarrow> False
      | Some b \<Rightarrow> (case zip_entries b of None \<Rightarrow> False | Some _ \<Rightarrow> True))"

definition zip_member_name :: "string \<Rightarrow> string" where
  "zip_member_name arcname =
     sep_join (filter (\<lambda>x. x \<notin> {[], ''.'', ''..''}) (split_sep arcname))"

fun mem_write_entries ::
  "string \<Rightarrow> string \<Rightarrow> (string \<times> blob) list \<Rightarrow> memfs \<Rightarrow> pyexc option \<times> memfs" where
  "mem_write_entries cwd path [] fs = (None, fs)"
| "mem_write_entries cwd path ((n, b) # es) fs =
     (let p = abspath cwd (path_join path n)
      in if blocked fs p then (Some OSError, fs)
         else mem_write_entries cwd path es (fs(p \<mapsto> b)))"

definition mem_zip_extractall ::
  "string \<Rightarrow> memfs \<Rightarrow> string \<Rightarrow> string \<Rightarrow> pyexc option \<times> memfs" where
  "mem_zip_extractall cwd fs src path =
     (case fs (abspath cwd src) of
        None \<Rightarrow> (Some OSError, fs)
      | Some b \<Rightarrow>
          (case zip_entries b of
             None \<Rightarrow> (Some BadZipFile, fs)
           | Some es \<Rightarrow>
               mem_write_entries cwd path (map (\<lambda>(n, b). (zip_member_name n, b)) es) fs))"

definition mem_is_tarfile :: "string \<Rightarrow> memfs \<Rightarrow> string \<Rightarrow> pyexc + bool" where
  "mem_is_tarfile cwd fs src =
     (case fs (abspath cwd src) of
        None \<Rightarrow> Inl OSError
      | Some (Tar _) \<Rightarrow> Inr True
      | Some _ \<Rightarrow> Inr False)"

definition mem_tar_getmembers :: "string \<Rightarrow> memfs \<Rightarrow> string \<Rightarrow> pyexc + tarinfo list" where
  "mem_tar_getmembers cwd fs src =
     (case fs (abspath cwd src) of
        Some (Tar ms) \<Rightarrow>
          Inr (map (\<lambda>(n, b). \<lparr>name = n, isfile = (case b of None \<Rightarrow> False | Some _ \<Rightarrow> True)\<rparr>) ms)
      | _ \<Rightarrow> Inl ReadError)"

definition regular_members :: "(string \<times> blob option) list \<Rightarrow> (string \<times> blob) list" where
  "regular_members ms = concat (map (\<lambda>(n, b). case b of None \<Rightarrow> [] | Some x \<Rightarrow> [(n, x)]) ms)"

definition mem_tar_extractall ::
  "string \<Rightarrow> memfs \<Rightarrow> string \<Rightarrow> string \<Rightarrow> pyexc option \<times> memfs" where
  "mem_tar_extractall cwd fs src path =
     (case fs (abspath cwd src) of
        Some (Tar ms) \<Rightarrow> mem_write_entries cwd path (regular_members ms) fs
      | _ \<Rightarrow> (Some ReadError, fs))"

definition memlib :: "string \<Rightarrow> (memfs, blob) oslib" where
  "memlib cwd =
     \<lparr>getcwd = cwd,
      gzip_read = mem_gzip_read cwd,
      write_file = mem_write_file cwd,
      is_zipfile = mem_is_zipfile cwd,
      zip_extractall = mem_zip_extractall cwd,
      is_tarfile = mem_is_tarfile cwd,
      tar_getmembers = mem_tar_getmembers cwd,
      tar_extractall = mem_tar_extractall cwd\<rparr>"

text \<open>The file systems of the examples.\<close>

definition traversal_fs :: memfs where
  "traversal_fs =
     Map.empty(''/x/evil.tar'' \<mapsto>
       Tar [(''ok.txt'', Some (Raw ''fine'')), (''../evil.txt'', Some (Raw ''pwned''))])"

definition truncated_fs :: memfs where
  "truncated_fs = Map.empty(''/data/obs.grib2.gz'' \<mapsto> GzipTruncated)"

definition plain_fs :: memfs where
  "plain_fs = Map.empty(''/data/readme.txt'' \<mapsto> Raw ''hello'', ''/data/notes.gz'' \<mapsto> Raw ''hello'')"

definition empty_file_fs :: memfs where
  "empty_file_fs = Map.empty(''/data/notes.gz'' \<mapsto> Raw [])"

definition nested_fs :: memfs where
  "nested_fs =
     Map.empty(''/data/set.gz'' \<mapsto> Gzip (Tar [(''a.txt'', Some (Raw ''one''))]),
               ''/data/bundle.tar'' \<mapsto> Tar [(''inner.zip'', Some (Zip [(''b.txt'', Raw ''two'')]))])"

subsection \<open>Containment, as the specification words it\<close>

text \<open>
  A target resolves to a location inside a directory when its absolute
  normalised path is the directory's, or continues it after a separator;
  everything is inside the root.
\<close>

definition resolves_inside :: "string \<Rightarrow> string \<Rightarrow> string \<Rightarrow> bool" where
  "resolves_inside cwd directory target =
     (let d = abspath cwd directory;
          t = abspath cwd target
      in if d = ''/'' then True
         else (t = d \<or> take (length d + 1) t = d @ ''/''))"

subsection \<open>The selected index, as the specification words it\<close>

text \<open>
  \<^verbatim>\<open>maxsplit\<close> less one when positive, itself otherwise and then, when
  negative, counted from the end of the list; the position is clamped to the
  range from \<open>0\<close> to the number of candidates less one.
\<close>

definition clamped_index :: "nat \<Rightarrow> int \<Rightarrow> int" where
  "clamped_index len maxsplit =
     (let i = (if maxsplit > 0 then maxsplit - 1 else maxsplit);
          j = (if i < 0 then int len + i else i)
      in max 0 (min (int len - 1) j))"

section \<open>Properties of the extension rewriter\<close>

subsection \<open>Auxiliary facts\<close>

lemma py_index_in_range:
  assumes "- int (length xs) \<le> i" and "i < int (length xs)"
  shows "py_index xs i = Inr (xs ! nat (if i < 0 then int (length xs) + i else i))"
  using assms by (simp add: py_index_def)

lemma select_index_upper: "select_index len maxsplit \<le> int len - 1"
  by (simp add: select_index_def Let_def)

lemma select_index_lower:
  assumes "0 < len" and "- int len \<le> maxsplit"
  shows "- int len \<le> select_index len maxsplit"
  using assms by (simp add: select_index_def Let_def)

text \<open>
  With at least one candidate and \<open>maxsplit\<close> not below minus their number,
  the selection succeeds.
\<close>

lemma file_extension_returns:
  assumes "candidates (case preffix of Some p \<Rightarrow> p @ file | None \<Rightarrow> file) sfx \<noteq> []"
    and "- int (length (candidates (case preffix of Some p \<Rightarrow> p @ file | None \<Rightarrow> file) sfx))
           \<le> maxsplit"
  shows "\<exists>r. file_extension file preffix sfx extension maxsplit = Inr r"
proof -
  let ?f = "case preffix of Some p \<Rightarrow> p @ file | None \<Rightarrow> file"
  let ?c = "candidates ?f sfx"
  have pos: "0 < length ?c" using assms(1) by simp
  have "- int (length ?c) \<le> select_index (length ?c) maxsplit"
    by (rule select_index_lower [OF pos assms(2)])
  moreover have "select_index (length ?c) maxsplit < int (length ?c)"
    using select_index_upper [of "length ?c" maxsplit] by simp
  ultimately have "\<exists>r. py_index ?c (select_index (length ?c) maxsplit) = Inr r"
    by (simp add: py_index_in_range)
  then show ?thesis by (simp add: file_extension_def Let_def)
qed

text \<open>The position selected, when \<^verbatim>\<open>maxsplit\<close> is not below minus the length.\<close>

lemma py_index_select:
  assumes "xs \<noteq> []" and "- int (length xs) \<le> m"
  shows "py_index xs (select_index (length xs) m) =
           Inr (xs ! (if m > 0 then min (length xs - 1) (nat (m - 1))
                      else if m = 0 then 0
                      else nat (int (length xs) + m)))"
proof -
  obtain k where k: "length xs = Suc k" using assms(1) by (cases xs) auto
  show ?thesis
  proof (cases "m > 0")
    case True
    then have "select_index (Suc k) m = int (min k (nat (m - 1)))"
      by (auto simp: select_index_def min_def)
    moreover have "min k (nat (m - 1)) < Suc k" by simp
    ultimately show ?thesis using True by (simp add: k py_index_def Let_def del: of_nat_min)
  next
    case False
    then have "select_index (Suc k) m = m" by (simp add: select_index_def)
    with False assms(2) show ?thesis by (auto simp: k py_index_def)
  qed
qed

text \<open>
  The candidate returned, for a filename that passes the \<^verbatim>\<open>endswith\<close> test and
  a \<^verbatim>\<open>maxsplit\<close> not below minus the number of candidates.
\<close>

lemma file_extension_selects:
  assumes "endswith_any (case preffix of Some p \<Rightarrow> p @ file | None \<Rightarrow> file)
             (active_exts extension)"
    and "candidates (case preffix of Some p \<Rightarrow> p @ file | None \<Rightarrow> file) sfx \<noteq> []"
    and "- int (length (candidates (case preffix of Some p \<Rightarrow> p @ file | None \<Rightarrow> file) sfx))
           \<le> maxsplit"
  shows "file_extension file preffix sfx extension maxsplit =
           Inr (candidates (case preffix of Some p \<Rightarrow> p @ file | None \<Rightarrow> file) sfx !
                  (if maxsplit > 0
                   then min (length (candidates (case preffix of Some p \<Rightarrow> p @ file
                                                 | None \<Rightarrow> file) sfx) - 1)
                            (nat (maxsplit - 1))
                   else if maxsplit = 0 then 0
                   else nat (int (length (candidates (case preffix of Some p \<Rightarrow> p @ file
                                                      | None \<Rightarrow> file) sfx)) + maxsplit)))"
proof -
  let ?c = "candidates (case preffix of Some p \<Rightarrow> p @ file | None \<Rightarrow> file) sfx"
  have "file_extension file preffix sfx extension maxsplit
          = py_index ?c (select_index (length ?c) maxsplit)"
    using assms(1) by (simp add: file_extension_def Let_def)
  also note py_index_select [OF assms(2) assms(3)]
  finally show ?thesis .
qed

lemma file_extension_selects_example:
  "endswith_any (case None of Some p \<Rightarrow> p @ ''data.tar.gz'' | None \<Rightarrow> ''data.tar.gz'')
     (active_exts ExtNone)
   \<and> candidates ''data.tar.gz'' [] = [''data.tar'', ''data'']
   \<and> - int (length (candidates ''data.tar.gz'' [])) \<le> - 1
   \<and> file_extension ''data.tar.gz'' None [] ExtNone (- 1) = Inr ''data''"
proof -
  have h1: "endswith_any (case None of Some p \<Rightarrow> p @ ''data.tar.gz'' | None \<Rightarrow> ''data.tar.gz'')
              (active_exts ExtNone)"
    by code_simp
  have c: "candidates ''data.tar.gz'' [] = [''data.tar'', ''data'']" by code_simp
  have h2: "candidates (case None of Some p \<Rightarrow> p @ ''data.tar.gz'' | None \<Rightarrow> ''data.tar.gz'') []
              \<noteq> []"
    by (simp add: c)
  have h3: "- int (length (candidates (case None of Some p \<Rightarrow> p @ ''data.tar.gz''
                                       | None \<Rightarrow> ''data.tar.gz'') [])) \<le> - 1"
    by (simp add: c)
  from file_extension_selects [OF h1 h2 h3] h1 c show ?thesis by simp
qed

text \<open>On that range the code selects the clamped position.\<close>

lemma clamped_index_position:
  assumes "0 < len" and "- int len \<le> m"
  shows "nat (clamped_index len m) =
           (if m > 0 then min (len - 1) (nat (m - 1))
            else if m = 0 then 0
            else nat (int len + m))"
  using assms by (auto simp: clamped_index_def Let_def min_def max_def)

lemma file_extension_selects_clamped:
  assumes "endswith_any (case preffix of Some p \<Rightarrow> p @ file | None \<Rightarrow> file)
             (active_exts extension)"
    and "candidates (case preffix of Some p \<Rightarrow> p @ file | None \<Rightarrow> file) sfx \<noteq> []"
    and "- int (length (candidates (case preffix of Some p \<Rightarrow> p @ file | None \<Rightarrow> file) sfx))
           \<le> maxsplit"
  shows "file_extension file preffix sfx extension maxsplit =
           Inr (candidates (case preffix of Some p \<Rightarrow> p @ file | None \<Rightarrow> file) sfx !
                  nat (clamped_index
                         (length (candidates (case preffix of Some p \<Rightarrow> p @ file
                                              | None \<Rightarrow> file) sfx))
                         maxsplit))"
proof -
  have "0 < length (candidates (case preffix of Some p \<Rightarrow> p @ file | None \<Rightarrow> file) sfx)"
    using assms(2) by simp
  from clamped_index_position [OF this assms(3)] file_extension_selects [OF assms]
  show ?thesis by simp
qed

subsection \<open>The claims\<close>

text \<open>
  Claim C3: for every filename, prefix, suffix, extension override and
  \<^verbatim>\<open>maxsplit\<close>, \<^verbatim>\<open>file_extension\<close> returns a string and raises nothing, also
  when an override matches the filename and no entry of \<open>EXTS\<close> does.
  The code raises there: with the override \<^verbatim>\<open>".xyz"\<close> the name \<^verbatim>\<open>"a.xyz"\<close>
  passes the \<^verbatim>\<open>endswith\<close> test, the candidate list, built from \<open>EXTS\<close>, is
  empty, the index is \<open>min (- 1) (- 1)\<close>, and indexing the empty list raises
  \<^verbatim>\<open>IndexError\<close>.
\<close>

theorem file_extension_override_raises:
  "candidates ''a.xyz'' ''.tif'' = []
   \<and> file_extension ''a.xyz'' None ''.tif'' (ExtStr ''.xyz'') (- 1) = Inl IndexError"
  by code_simp

text \<open>
  Claim C5: for a filename that ends in a recognised extension,
  \<^verbatim>\<open>file_extension(f, suffix=s)\<close> ends with \<open>s\<close> and keeps what precedes the
  matched trailing extension unchanged.
  The code replaces every occurrence of the matched extension, not only the
  trailing one: \<^verbatim>\<open>"my.zip.files.zip"\<close> with the default suffix becomes
  \<^verbatim>\<open>"my.tif.files.tif"\<close>, where the claim gives \<^verbatim>\<open>"my.zip.files.tif"\<close>.
\<close>

theorem file_extension_replaces_every_occurrence:
  "endswith ''my.zip.files.zip'' ''.zip''
   \<and> file_extension ''my.zip.files.zip'' None ''.tif'' ExtNone (- 1) = Inr ''my.tif.files.tif''"
  by code_simp

text \<open>
  Claim C6: \<^verbatim>\<open>file_extension("data.tar.gz", suffix="", maxsplit=1)\<close> returns
  \<^verbatim>\<open>"data.tar"\<close>.
\<close>

theorem file_extension_tar_gz_one_level:
  "file_extension ''data.tar.gz'' None [] ExtNone 1 = Inr ''data.tar''"
  by code_simp

text \<open>
  Claim C7: with a non-empty candidate list, the index used is \<^verbatim>\<open>maxsplit - 1\<close>
  for a positive \<^verbatim>\<open>maxsplit\<close> and \<^verbatim>\<open>maxsplit\<close> itself otherwise, as a Python
  index that may be negative, clamped to the range from \<open>0\<close> to the number of
  candidates less one.
  The code bounds the index from above only, under the comment that it makes sure
  not to go out of range: \<^verbatim>\<open>"data.tar.gz"\<close> has two candidates, the clamped
  position for \<^verbatim>\<open>maxsplit = -3\<close> is \<open>0\<close>, the index the code uses is \<open>- 3\<close>,
  and the call raises \<^verbatim>\<open>IndexError\<close> instead of returning a candidate.
\<close>

theorem select_index_not_clamped:
  "candidates ''data.tar.gz'' [] = [''data.tar'', ''data'']
   \<and> clamped_index (length (candidates ''data.tar.gz'' [])) (- 3) = 0
   \<and> select_index (length (candidates ''data.tar.gz'' [])) (- 3) = - 3
   \<and> file_extension ''data.tar.gz'' None [] ExtNone (- 3) = Inl IndexError"
  by code_simp

text \<open>
  Claim C9: when the filename, with the prefix put in front if one is given, ends
  with no extension of the active candidate set, \<^verbatim>\<open>file_extension\<close> returns
  that filename followed by the suffix.
\<close>

theorem file_extension_no_match:
  assumes "\<not> endswith_any (case preffix of Some p \<Rightarrow> p @ file | None \<Rightarrow> file)
               (active_exts extension)"
  shows "file_extension file preffix sfx extension maxsplit =
           Inr ((case preffix of Some p \<Rightarrow> p @ file | None \<Rightarrow> file) @ sfx)"
  using assms by (simp add: file_extension_def)

theorem file_extension_no_match_witness:
  "\<not> endswith_any (case Some ''x_'' of Some p \<Rightarrow> p @ ''notes.md'' | None \<Rightarrow> ''notes.md'')
        (active_exts ExtNone)
   \<and> file_extension ''notes.md'' (Some ''x_'') ''.tif'' ExtNone (- 1) = Inr ''x_notes.md.tif''"
proof -
  have h: "\<not> endswith_any (case Some ''x_'' of Some p \<Rightarrow> p @ ''notes.md'' | None \<Rightarrow> ''notes.md'')
              (active_exts ExtNone)"
    by code_simp
  from file_extension_no_match [OF h, of "''.tif''" "- 1"] h show ?thesis by simp
qed

section \<open>Properties of the decompressor\<close>

subsection \<open>Auxiliary facts\<close>

lemma decompress_unfold:
  "decompress n lib fs src dst recursive =
     decompress_body (case n of 0 \<Rightarrow> (\<lambda>s p d r. None) | Suc m \<Rightarrow> decompress m lib)
       lib fs src dst recursive"
  by (cases n) simp_all

lemma endswith_any_exts:
  assumes "endswith_any src [''.gz'', ''.tar'', ''.zip'']"
  shows "endswith_any src [''.gz'', ''.tar'', ''.zip'', ''.tar.gz'']"
  using assms by (auto simp: endswith_any_def)

text \<open>A member that fails the check stops \<^verbatim>\<open>safe_extract\<close> before anything is written.\<close>

lemma safe_extract_rejects:
  assumes "check_members (getcwd lib) path members = Inl ex"
  shows "safe_extract lib fs src members path = (Some ex, fs)"
  using assms by (simp add: safe_extract_def)

lemma check_members_fails:
  assumes "m \<in> set members"
    and "\<not> is_within_directory cwd path (path_join path (name m))"
  shows "check_members cwd path members = Inl PathTraversal"
  using assms by (induction members) (auto simp: Let_def)

text \<open>
  An exception of the gzip probe that is not an \<^verbatim>\<open>OSError\<close> reaches the caller,
  whatever the libraries are.
\<close>

lemma decompress_gzip_exception_escapes:
  assumes "endswith_any src [''.gz'', ''.tar'', ''.zip'', ''.tar.gz'']"
    and "gzip_read lib fs src = Inl ex" and "\<not> is_OSError ex"
  shows "decompress n lib fs src dst recursive = Some (Inl ex, fs)"
  using assms by (simp add: decompress_unfold decompress_body_def gunzip_stage_def)

text \<open>
  The extraction stage absorbs every exception, so an exception that reaches the
  caller was raised in the gzip stage of the outermost call. Without recursion
  the call always comes back.
\<close>

lemma extract_stage_absorbs:
  "extract_stage self lib fs src dst filename recursive \<noteq> Some (Inl ex, fs')"
  by (auto simp: extract_stage_def Let_def
           split: sum.splits option.splits prod.splits bool.splits)

lemma decompress_exception_origin:
  assumes "decompress n lib fs src dst recursive = Some (Inl ex, fs')"
  shows "gunzip_stage lib fs src dst (basename src) = (Inl ex, fs')"
  using assms
  by (auto simp: decompress_unfold decompress_body_def Let_def extract_stage_absorbs
           split: if_splits sum.splits prod.splits)

lemma extract_stage_returns:
  "\<exists>out. extract_stage self lib fs src dst filename False = Some out"
  by (auto simp: extract_stage_def Let_def
           split: sum.splits option.splits prod.splits bool.splits)

lemma decompress_returns_flat:
  "\<exists>out. decompress n lib fs src dst False = Some out"
  using extract_stage_returns
  by (auto simp: decompress_unfold decompress_body_def Let_def
           split: if_splits sum.splits prod.splits)

text \<open>
  When a member fails the check, \<^verbatim>\<open>decompress\<close> returns \<^verbatim>\<open>False\<close> and the
  file system is the one the gzip stage left: nothing of the archive is extracted.
\<close>

lemma decompress_traversal_rejected:
  assumes "endswith_any src [''.gz'', ''.tar'', ''.zip'', ''.tar.gz'']"
    and "gunzip_stage lib fs src dst (basename src) = (Inr src', fs')"
    and "\<not> is_zipfile lib fs' src'"
    and "is_tarfile lib fs' src' = Inr True"
    and "tar_getmembers lib fs' src' = Inr members"
    and "file_extension (basename src) None [] ExtNone (- 1) = Inr fname"
    and "check_members (getcwd lib) (path_join dst fname) members = Inl ex"
  shows "decompress n lib fs src dst recursive = Some (Inr Failure, fs')"
  using assms
  by (simp add: decompress_unfold decompress_body_def extract_stage_def safe_extract_rejects)

text \<open>
  Two runs on the in-memory file system. A tar archive compressed as
  \<^verbatim>\<open>set.gz\<close> is unpacked to the file \<^verbatim>\<open>/tmp/set\<close>, which is also the
  extraction directory, so the extraction fails and \<^verbatim>\<open>False\<close> is returned. A
  tar archive that holds a zip member is taken for the zip archive, whose entry
  is written to the extraction directory.
\<close>

lemma memlib_examples:
  "map_option fst (decompress 0 (memlib ''/'') nested_fs ''/data/set.gz'' ''/tmp'' False)
     = Some (Inr Failure)
   \<and> map_option fst (decompress 0 (memlib ''/'') nested_fs ''/data/bundle.tar'' ''/tmp'' True)
     = Some (Inr (Path ''/tmp/bundle''))
   \<and> (case decompress 0 (memlib ''/'') nested_fs ''/data/bundle.tar'' ''/tmp'' True of
         None \<Rightarrow> None | Some (r, fs) \<Rightarrow> fs ''/tmp/bundle/b.txt'') = Some (Raw ''two'')"
  by code_simp

subsection \<open>The claims\<close>

text \<open>
  Claim C1: a tar archive with a member whose name has a parent-directory escape,
  such as \<^verbatim>\<open>"../evil.txt"\<close>, makes \<^verbatim>\<open>decompress\<close> return \<^verbatim>\<open>False\<close>, extract
  nothing and create no file outside the destination directory.
  The code lets such a member through when the escaped path continues the
  characters of the extraction directory: for the archive \<^verbatim>\<open>/x/evil.tar\<close>
  with the members \<^verbatim>\<open>"ok.txt"\<close> and \<^verbatim>\<open>"../evil.txt"\<close>, extracted below
  \<^verbatim>\<open>/tmp\<close>, the directory is \<^verbatim>\<open>/tmp/evil\<close>, the second member resolves to
  \<^verbatim>\<open>/tmp/evil.txt\<close>, the check passes for both, the archive is extracted and
  the directory is returned.
\<close>

theorem decompress_traversal_not_stopped:
  "map_option fst (decompress 0 (memlib ''/'') traversal_fs ''/x/evil.tar'' ''/tmp'' False)
     = Some (Inr (Path ''/tmp/evil''))
   \<and> (case decompress 0 (memlib ''/'') traversal_fs ''/x/evil.tar'' ''/tmp'' False of
         None \<Rightarrow> None | Some (r, fs) \<Rightarrow> fs ''/tmp/evil/ok.txt'') = Some (Raw ''fine'')
   \<and> (case decompress 0 (memlib ''/'') traversal_fs ''/x/evil.tar'' ''/tmp'' False of
         None \<Rightarrow> None | Some (r, fs) \<Rightarrow> fs ''/tmp/evil.txt'') = Some (Raw ''pwned'')
   \<and> traversal_fs ''/tmp/evil.txt'' = None
   \<and> \<not> resolves_inside ''/'' ''/tmp/evil'' ''/tmp/evil.txt''"
  by code_simp

text \<open>
  Claim C2: every member path that passes the containment check resolves to a
  location inside the destination directory.
  The check compares characters, not path components: below \<^verbatim>\<open>/tmp/foo\<close> the
  member \<^verbatim>\<open>"../foobar/evil.txt"\<close> resolves to \<^verbatim>\<open>/tmp/foobar/evil.txt\<close>, which
  begins with the characters \<^verbatim>\<open>/tmp/foo\<close> and passes, in a sibling directory.
\<close>

theorem is_within_directory_sibling:
  "is_within_directory ''/'' ''/tmp/foo'' (path_join ''/tmp/foo'' ''../foobar/evil.txt'')
   \<and> check_members ''/'' ''/tmp/foo'' [\<lparr>name = ''../foobar/evil.txt'', isfile = True\<rparr>] = Inr ()
   \<and> abspath ''/'' (path_join ''/tmp/foo'' ''../foobar/evil.txt'') = ''/tmp/foobar/evil.txt''
   \<and> \<not> resolves_inside ''/'' ''/tmp/foo'' (path_join ''/tmp/foo'' ''../foobar/evil.txt'')"
  by code_simp

text \<open>
  Claim C4: no exception leaves \<^verbatim>\<open>decompress\<close>; it returns a path or
  \<^verbatim>\<open>False\<close>, whatever happens while it probes for gzip or extracts.
  The handler of the gzip probe catches \<^verbatim>\<open>OSError\<close> only, where the handler
  of the extraction catches every exception: on a gzip file cut off before its
  end the read raises \<^verbatim>\<open>EOFError\<close>, and the caller gets it.
\<close>

theorem decompress_truncated_gzip_raises:
  "map_option fst
     (decompress 0 (memlib ''/'') truncated_fs ''/data/obs.grib2.gz'' ''/tmp'' False)
     = Some (Inl EOFError)"
  by code_simp

text \<open>
  Claim C8: for a source path that ends with none of \<^verbatim>\<open>.gz\<close>, \<^verbatim>\<open>.tar\<close>,
  \<^verbatim>\<open>.zip\<close>, \<^verbatim>\<open>.tar.gz\<close>, \<^verbatim>\<open>decompress\<close> returns \<^verbatim>\<open>False\<close> at once, raises
  nothing and leaves the file system as it was, for every behaviour of the
  libraries and at every nesting depth.
\<close>

theorem decompress_rejects_other_names:
  assumes "\<not> endswith_any src [''.gz'', ''.tar'', ''.zip'', ''.tar.gz'']"
  shows "decompress n lib fs src dst recursive = Some (Inr Failure, fs)"
  using assms by (simp add: decompress_unfold decompress_body_def)

theorem decompress_rejects_other_names_witness:
  "\<not> endswith_any ''/data/readme.txt'' [''.gz'', ''.tar'', ''.zip'', ''.tar.gz'']
   \<and> decompress 2 (memlib ''/'') plain_fs ''/data/readme.txt'' ''/tmp'' True
       = Some (Inr Failure, plain_fs)"
proof -
  have h: "\<not> endswith_any ''/data/readme.txt'' [''.gz'', ''.tar'', ''.zip'', ''.tar.gz'']"
    by code_simp
  from decompress_rejects_other_names [OF h] h show ?thesis by simp
qed

text \<open>
  Claim C10: for a source whose name ends with \<^verbatim>\<open>.gz\<close>, \<^verbatim>\<open>.tar\<close> or \<^verbatim>\<open>.zip\<close>
  and whose content is none of gzip, zip or tar, \<^verbatim>\<open>decompress\<close> returns the
  source path itself and creates no file.
  As amended: for such a name, when the gzip read of the source raises an
  \<^verbatim>\<open>OSError\<close> (as it does on content that is not empty and has no gzip
  header) and \<^verbatim>\<open>is_zipfile\<close> and \<^verbatim>\<open>is_tarfile\<close> both report \<^verbatim>\<open>False\<close>,
  \<^verbatim>\<open>decompress\<close> returns the source path itself and leaves the file system
  as it was.
\<close>

theorem decompress_not_an_archive:
  assumes "endswith_any src [''.gz'', ''.tar'', ''.zip'']"
    and "gzip_read lib fs src = Inl ex" and "is_OSError ex"
    and "\<not> is_zipfile lib fs src" and "is_tarfile lib fs src = Inr False"
  shows "decompress n lib fs src dst recursive = Some (Inr (Path src), fs)"
  using assms endswith_any_exts [OF assms(1)]
  by (simp add: decompress_unfold decompress_body_def gunzip_stage_def extract_stage_def)

theorem decompress_not_an_archive_witness:
  "endswith_any ''/data/notes.gz'' [''.gz'', ''.tar'', ''.zip'']
   \<and> gzip_read (memlib ''/'') plain_fs ''/data/notes.gz'' = Inl OSError
   \<and> is_OSError OSError
   \<and> \<not> is_zipfile (memlib ''/'') plain_fs ''/data/notes.gz''
   \<and> is_tarfile (memlib ''/'') plain_fs ''/data/notes.gz'' = Inr False
   \<and> decompress 1 (memlib ''/'') plain_fs ''/data/notes.gz'' ''/tmp'' True
       = Some (Inr (Path ''/data/notes.gz''), plain_fs)"
proof -
  have h1: "endswith_any ''/data/notes.gz'' [''.gz'', ''.tar'', ''.zip'']" by code_simp
  have h2: "gzip_read (memlib ''/'') plain_fs ''/data/notes.gz'' = Inl OSError" by code_simp
  have h3: "is_OSError OSError" by simp
  have h4: "\<not> is_zipfile (memlib ''/'') plain_fs ''/data/notes.gz''" by code_simp
  have h5: "is_tarfile (memlib ''/'') plain_fs ''/data/notes.gz'' = Inr False" by code_simp
  from decompress_not_an_archive [OF h1 h2 h3 h4 h5] h1 h2 h3 h4 h5 show ?thesis by simp
qed

text \<open>
  The claim as it is worded fails on an empty file: \<^verbatim>\<open>/data/notes.gz\<close> with no
  content is none of gzip, zip or tar, yet the gzip read returns empty content
  without raising, so the code writes \<^verbatim>\<open>/tmp/notes\<close> and returns that path.
\<close>

theorem decompress_empty_file_copied:
  "endswith_any ''/data/notes.gz'' [''.gz'', ''.tar'', ''.zip'']
   \<and> empty_file_fs ''/data/notes.gz'' = Some (Raw [])
   \<and> gzip_read (memlib ''/'') empty_file_fs ''/data/notes.gz'' = Inr (Raw [])
   \<and> \<not> is_zipfile (memlib ''/'') empty_file_fs ''/data/notes.gz''
   \<and> is_tarfile (memlib ''/'') empty_file_fs ''/data/notes.gz'' = Inr False
   \<and> map_option fst
         (decompress 0 (memlib ''/'') empty_file_fs ''/data/notes.gz'' ''/tmp'' False)
       = Some (Inr (Path ''/tmp/notes''))
   \<and> empty_file_fs ''/tmp/notes'' = None
   \<and> (case decompress 0 (memlib ''/'') empty_file_fs ''/data/notes.gz'' ''/tmp'' False of
         None \<Rightarrow> None | Some (r, fs) \<Rightarrow> fs ''/tmp/notes'') = Some (Raw [])"
  by code_simp

end
